theory Spec2Isabelle
  imports Complex_Main "HOL-Library.Sublist"
begin

section \<open>Python text operations used by the bridge\<close>

text \<open>
  A text is a list of characters; the character with number \<open>n\<close> stands for the code
  point \<open>n\<close>, so the model covers the texts whose code points are below 256. On these
  the functions below are Python's \<^verbatim>\<open>str.lower\<close>, \<^verbatim>\<open>str.strip\<close>, \<^verbatim>\<open>str.startswith\<close>,
  \<^verbatim>\<open>sub in s\<close>, \<^verbatim>\<open>str.split(sep, 1)\<close> and \<^verbatim>\<open>str.splitlines\<close>.
\<close>

definition py_lower_char :: "char \<Rightarrow> char" where
  "py_lower_char c =
     (let n = (of_char c :: nat)
      in if (65 \<le> n \<and> n \<le> 90) \<or> (192 \<le> n \<and> n \<le> 214) \<or> (216 \<le> n \<and> n \<le> 222)
         then char_of (n + 32) else c)"

definition py_lower :: "string \<Rightarrow> string" where
  "py_lower s = map py_lower_char s"

definition py_isspace :: "char \<Rightarrow> bool" where
  "py_isspace c =
     (let n = (of_char c :: nat)
      in (9 \<le> n \<and> n \<le> 13) \<or> (28 \<le> n \<and> n \<le> 32) \<or> n = 133 \<or> n = 160)"

definition py_strip :: "string \<Rightarrow> string" where
  "py_strip s = rev (dropWhile py_isspace (rev (dropWhile py_isspace s)))"

fun startswith :: "string \<Rightarrow> string \<Rightarrow> bool" where
  "startswith s [] = True"
| "startswith [] (p # ps) = False"
| "startswith (c # cs) (p # ps) = (c = p \<and> startswith cs ps)"

text \<open>\<open>py_in sub s\<close> is Python's \<^verbatim>\<open>sub in s\<close> on two texts.\<close>

fun py_in :: "string \<Rightarrow> string \<Rightarrow> bool" where
  "py_in sub [] = (sub = [])"
| "py_in sub (c # cs) = (startswith (c # cs) sub \<or> py_in sub cs)"

text \<open>
  \<open>find_sep sep s\<close> cuts \<open>s\<close> at the first occurrence of \<open>sep\<close>; \<open>py_split1\<close> is
  \<^verbatim>\<open>s.split(sep, 1)\<close> for a non-empty separator (the bridge only splits on literals).
\<close>

fun find_sep :: "string \<Rightarrow> string \<Rightarrow> (string \<times> string) option" where
  "find_sep sep [] = (if sep = [] then Some ([], []) else None)"
| "find_sep sep (c # cs) =
     (if startswith (c # cs) sep then Some ([], drop (length sep) (c # cs))
      else map_option (\<lambda>(a, b). (c # a, b)) (find_sep sep cs))"

definition py_split1 :: "string \<Rightarrow> string \<Rightarrow> string list" where
  "py_split1 sep s = (case find_sep sep s of None \<Rightarrow> [s] | Some (a, b) \<Rightarrow> [a, b])"

definition is_linebreak :: "char \<Rightarrow> bool" where
  "is_linebreak c =
     (let n = (of_char c :: nat)
      in (10 \<le> n \<and> n \<le> 13) \<or> (28 \<le> n \<and> n \<le> 30) \<or> n = 133)"

text \<open>
  \<^verbatim>\<open>str.splitlines()\<close>: a line ends at a line boundary, carriage return followed by
  line feed is one boundary, and no empty line is produced after the last boundary.
  The first argument is the line read so far.
\<close>

fun splitlines_from :: "string \<Rightarrow> string \<Rightarrow> string list" where
  "splitlines_from cur [] = (if cur = [] then [] else [cur])"
| "splitlines_from cur [c] = (if is_linebreak c then [cur] else [cur @ [c]])"
| "splitlines_from cur (c # d # cs) =
     (if c = CHR 0x0D \<and> d = CHR 0x0A then cur # splitlines_from [] cs
      else if is_linebreak c then cur # splitlines_from [] (d # cs)
      else splitlines_from (cur @ [c]) (d # cs))"

definition py_splitlines :: "string \<Rightarrow> string list" where
  "py_splitlines s = splitlines_from [] s"

section \<open>The bridge object and its environment\<close>

text \<open>
  A Python exception, as far as the bridge observes it: whether it is an instance of
  \<^verbatim>\<open>Exception\<close> (\<^verbatim>\<open>KeyboardInterrupt\<close> and \<^verbatim>\<open>SystemExit\<close> are not), and what
  \<^verbatim>\<open>str(e)\<close> does: it returns the message (\<open>Inr\<close>) or raises an exception itself
  (\<open>Inl\<close>).
\<close>

datatype py_exception = PyException (is_Exception: bool) (exc_str: "py_exception + string")

text \<open>
  A clause \<^verbatim>\<open>except Exception as e\<close> whose body starts by evaluating \<^verbatim>\<open>str(e)\<close>, as
  both handlers of the bridge do: \<open>Inr msg\<close> when the exception is caught and its message
  read, \<open>Inl\<close> the exception that leaves the handler otherwise.
\<close>

definition except_Exception :: "py_exception \<Rightarrow> py_exception + string" where
  "except_Exception x = (if is_Exception x then exc_str x else Inl x)"

text \<open>
  What a process launch does: it raises an exception, or the process runs and exits with
  its standard output, standard error and return code.
\<close>

datatype proc_outcome = Raised py_exception | Exited string string int

text \<open>
  The environment of a bridge: the file system (\<^verbatim>\<open>os.path.exists\<close>), the path of the
  bridge executable, the clock (\<^verbatim>\<open>time.time\<close>) and the external engine. The engine and the
  clock may answer differently at every call: they see the command lines launched so far.
\<close>

record env =
  path_exists :: "string \<Rightarrow> bool"
  bridge_exe_path :: string
  popen :: "string list list \<Rightarrow> string list \<Rightarrow> proc_outcome"
  time_time :: "string list list \<Rightarrow> real"

text \<open>
  The state of an \<^verbatim>\<open>EZCADBridge\<close> object is its field \<^verbatim>\<open>current_ezd_file\<close>; the
  field \<open>invocations\<close> records every command line handed to \<^verbatim>\<open>subprocess.Popen\<close>,
  oldest first.
\<close>

record bridge =
  current_ezd_file :: "string option"
  invocations :: "string list list"

text \<open>The dictionary returned by \<^verbatim>\<open>_run_bridge_command\<close>; its key \<^verbatim>\<open>output\<close> is the field \<open>output_text\<close>.\<close>

record bridge_result =
  output_text :: string
  error :: string
  return_code :: int
  success :: bool

text \<open>
  Every method returns \<open>Inr\<close> of its value, or \<open>Inl\<close> of the exception that leaves it,
  together with the state of the bridge afterwards. Exceptions arise at a process launch
  (from \<^verbatim>\<open>Popen\<close> to the end of \<^verbatim>\<open>communicate\<close>), at the conversion of a row value to
  text and at \<^verbatim>\<open>data_item.get\<close>; the calls of the logger and of the clock are taken not
  to raise.
\<close>

definition run_bridge_command ::
  "env \<Rightarrow> bridge \<Rightarrow> string list \<Rightarrow> (py_exception + bridge_result) \<times> bridge" where
  "run_bridge_command e s args =
     (let command = bridge_exe_path e # args;
          s' = s\<lparr>invocations := invocations s @ [command]\<rparr>
      in case popen e (invocations s) command of
           Exited out err rc \<Rightarrow>
             (Inr \<lparr>output_text = out, error = err, return_code = rc, success = (rc = 0)\<rparr>, s')
         | Raised x \<Rightarrow>
             (case except_Exception x of
                Inr msg \<Rightarrow>
                  (Inr \<lparr>output_text = [], error = msg, return_code = - 1, success = False\<rparr>, s')
              | Inl x' \<Rightarrow> (Inl x', s')))"

definition open_ezd_file :: "env \<Rightarrow> bridge \<Rightarrow> string \<Rightarrow> (py_exception + bool) \<times> bridge" where
  "open_ezd_file e s ezd_file_path =
     (if \<not> path_exists e ezd_file_path then (Inr False, s)
      else case run_bridge_command e s [''open'', ezd_file_path] of
        (Inl x, s') \<Rightarrow> (Inl x, s')
      | (Inr result, s') \<Rightarrow>
          if py_in ''successfully'' (py_lower (output_text result))
          then (Inr True, s'\<lparr>current_ezd_file := Some ezd_file_path\<rparr>)
          else (Inr False, s'))"

definition update_text ::
  "env \<Rightarrow> bridge \<Rightarrow> string \<Rightarrow> string \<Rightarrow> (py_exception + bool) \<times> bridge" where
  "update_text e s entity_name new_text =
     (if current_ezd_file s = None then (Inr False, s)
      else case run_bridge_command e s [''update'', entity_name, new_text] of
        (Inl x, s') \<Rightarrow> (Inl x, s')
      | (Inr result, s') \<Rightarrow>
          if py_in ''updated successfully'' (py_lower (output_text result))
          then (Inr True, s') else (Inr False, s'))"

text \<open>
  \<^verbatim>\<open>mark(entity_name=None)\<close>: the test \<^verbatim>\<open>if entity_name:\<close> holds for a non-empty
  text only.
\<close>

definition mark :: "env \<Rightarrow> bridge \<Rightarrow> string option \<Rightarrow> (py_exception + bool) \<times> bridge" where
  "mark e s entity_name =
     (if current_ezd_file s = None then (Inr False, s)
      else
        let command = (case entity_name of
                         None \<Rightarrow> [''mark'']
                       | Some n \<Rightarrow> if n \<noteq> [] then [''mark'', n] else [''mark''])
        in case run_bridge_command e s command of
          (Inl x, s') \<Rightarrow> (Inl x, s')
        | (Inr result, s') \<Rightarrow>
            if py_in ''completed'' (py_lower (output_text result))
            then (Inr True, s') else (Inr False, s'))"

text \<open>
  \<^verbatim>\<open>red_light(x, y)\<close>: the coordinates are numbers; they are given here by the texts
  \<^verbatim>\<open>str(x)\<close> and \<^verbatim>\<open>str(y)\<close> that the command line receives.
\<close>

definition red_light ::
  "env \<Rightarrow> bridge \<Rightarrow> string \<Rightarrow> string \<Rightarrow> (py_exception + bool) \<times> bridge" where
  "red_light e s x y =
     (if current_ezd_file s = None then (Inr False, s)
      else case run_bridge_command e s [''red'', x, y] of
        (Inl x', s') \<Rightarrow> (Inl x', s')
      | (Inr result, s') \<Rightarrow>
          if py_in ''positioned successfully'' (py_lower (output_text result))
          then (Inr True, s') else (Inr False, s'))"

text \<open>
  The body of the loop of \<^verbatim>\<open>list_entities\<close> on one line, appending to \<open>entities\<close>,
  with the tests \<^verbatim>\<open>len(parts) > 1\<close> and \<^verbatim>\<open>if name_parts:\<close> of the source.
\<close>

definition entity_line :: "string list \<Rightarrow> string \<Rightarrow> string list" where
  "entity_line entities line0 =
     (let line = py_strip line0
      in if startswith line ''['' \<and> py_in '']'' line then
           (let parts = py_split1 '']'' line
            in if length parts > 1 then
                 (let entity_info = py_strip (parts ! 1);
                      name_parts = py_split1 ''(Type:'' entity_info
                  in if name_parts \<noteq> [] then entities @ [py_strip (name_parts ! 0)]
                     else entities)
               else entities)
         else entities)"

definition parse_entities :: "string \<Rightarrow> string list" where
  "parse_entities out = foldl entity_line [] (py_splitlines out)"

definition list_entities :: "env \<Rightarrow> bridge \<Rightarrow> (py_exception + string list) \<times> bridge" where
  "list_entities e s =
     (if current_ezd_file s = None then (Inr [], s)
      else case run_bridge_command e s [''list''] of
        (Inl x, s') \<Rightarrow> (Inl x, s')
      | (Inr result, s') \<Rightarrow> (Inr (parse_entities (output_text result)), s'))"

definition save_ezd_file :: "env \<Rightarrow> bridge \<Rightarrow> string \<Rightarrow> (py_exception + bool) \<times> bridge" where
  "save_ezd_file e s output_path =
     (if current_ezd_file s = None then (Inr False, s)
      else case run_bridge_command e s [''save'', output_path] of
        (Inl x, s') \<Rightarrow> (Inl x, s')
      | (Inr result, s') \<Rightarrow>
          if py_in ''saved successfully'' (py_lower (output_text result))
          then (Inr True, s') else (Inr False, s'))"

section \<open>Batch processing\<close>

text \<open>
  A value of a data row is seen by the batch only through \<^verbatim>\<open>str(value)\<close>: \<open>Str t\<close> is
  a value whose text is \<open>t\<close>, \<open>StrRaises x\<close> a value whose conversion raises the
  exception \<open>x\<close>. A row is a dictionary from entity names to values, kept as the list of
  its items in iteration order, or an object without the dictionary interface, on which
  \<^verbatim>\<open>data_item.get\<close> raises an \<^verbatim>\<open>AttributeError\<close>.
\<close>

datatype pyval = Str string | StrRaises py_exception

datatype data_item = Dict "(string \<times> pyval) list" | NotADict

fun py_str :: "pyval \<Rightarrow> py_exception + string" where
  "py_str (Str t) = Inr t"
| "py_str (StrRaises x) = Inl x"

definition AttributeError :: py_exception where
  "AttributeError = PyException True (Inr ''object has no attribute get'')"

text \<open>
  The counters of \<^verbatim>\<open>stats\<close> (keys \<^verbatim>\<open>total\<close>, \<^verbatim>\<open>success\<close>, \<^verbatim>\<open>errors\<close>,
  \<^verbatim>\<open>start_time\<close>), and the dictionary returned at the end, which adds \<^verbatim>\<open>end_time\<close> and
  \<^verbatim>\<open>duration\<close>. Times are real numbers here; the rounding of Python's floats is not
  modelled.
\<close>

record stats =
  stats_total :: nat
  stats_success :: nat
  stats_errors :: nat
  start_time :: real

record final_stats = stats +
  end_time :: real
  duration :: real

text \<open>
  What \<^verbatim>\<open>process_data\<close> returns: the dictionary
  \<^verbatim>\<open>{"success": False, "error": msg}\<close>, or the statistics.
\<close>

datatype batch_result = Failure string | Statistics final_stats

text \<open>
  The inner loop over \<^verbatim>\<open>data_item.items()\<close>, from the flag \<^verbatim>\<open>update_success\<close>
  reached so far. \<open>Inl x\<close> is an exception that leaves the loop.
\<close>

fun update_entities ::
  "env \<Rightarrow> string list \<Rightarrow> bridge \<Rightarrow> bool \<Rightarrow> (string \<times> pyval) list
    \<Rightarrow> (py_exception + bool) \<times> bridge" where
  "update_entities e available_entities s update_success [] = (Inr update_success, s)"
| "update_entities e available_entities s update_success ((entity_name, text_value) # rest) =
     (if entity_name \<noteq> ''id'' then
        (if entity_name \<in> set available_entities then
           (case py_str text_value of
              Inl x \<Rightarrow> (Inl x, s)
            | Inr new_text \<Rightarrow>
                (case update_text e s entity_name new_text of
                   (Inl x, s') \<Rightarrow> (Inl x, s')
                 | (Inr updated, s') \<Rightarrow>
                     if \<not> updated
                     then update_entities e available_entities s' False rest
                     else update_entities e available_entities s' update_success rest))
         else update_entities e available_entities s update_success rest)
      else update_entities e available_entities s update_success rest)"

text \<open>
  The body of the \<^verbatim>\<open>try\<close> block for one row. The identifier of the row is only
  written to the log, which converts it to text.
\<close>

definition try_item ::
  "env \<Rightarrow> string list \<Rightarrow> stats \<Rightarrow> bridge \<Rightarrow> data_item \<Rightarrow> (py_exception + stats) \<times> bridge" where
  "try_item e available_entities st s data_item =
     (case data_item of
        NotADict \<Rightarrow> (Inl AttributeError, s)
      | Dict kvs \<Rightarrow>
          (case (case map_of kvs ''id'' of None \<Rightarrow> Inr [] | Some item_id \<Rightarrow> py_str item_id) of
             Inl x \<Rightarrow> (Inl x, s)
           | Inr _ \<Rightarrow>
               (case update_entities e available_entities s True kvs of
                  (Inl x, s') \<Rightarrow> (Inl x, s')
                | (Inr update_success, s') \<Rightarrow>
                    if update_success then
                      (case mark e s' None of
                         (Inl x, s'') \<Rightarrow> (Inl x, s'')
                       | (Inr marked, s'') \<Rightarrow>
                           if marked
                           then (Inr (st\<lparr>stats_success := stats_success st + 1\<rparr>), s'')
                           else (Inr (st\<lparr>stats_errors := stats_errors st + 1\<rparr>), s''))
                    else (Inr (st\<lparr>stats_errors := stats_errors st + 1\<rparr>), s'))))"

text \<open>
  The loop over the rows, with its handler \<^verbatim>\<open>except Exception as e\<close>: the handler
  writes \<^verbatim>\<open>str(e)\<close> to the log and then adds one to \<^verbatim>\<open>errors\<close>. An exception that
  is not an \<^verbatim>\<open>Exception\<close>, or one raised by \<^verbatim>\<open>str(e)\<close>, leaves the loop.
\<close>

fun process_items ::
  "env \<Rightarrow> string list \<Rightarrow> stats \<Rightarrow> bridge \<Rightarrow> data_item list \<Rightarrow> (py_exception + stats) \<times> bridge" where
  "process_items e available_entities st s [] = (Inr st, s)"
| "process_items e available_entities st s (data_item # rest) =
     (case try_item e available_entities st s data_item of
        (Inr st', s') \<Rightarrow> process_items e available_entities st' s' rest
      | (Inl x, s') \<Rightarrow>
          (case except_Exception x of
             Inr msg \<Rightarrow>
               process_items e available_entities (st\<lparr>stats_errors := stats_errors st + 1\<rparr>) s' rest
           | Inl x' \<Rightarrow> (Inl x', s')))"

definition process_data ::
  "env \<Rightarrow> bridge \<Rightarrow> string \<Rightarrow> data_item list \<Rightarrow> string option
    \<Rightarrow> (py_exception + batch_result) \<times> bridge" where
  "process_data e s ezd_template data_items output_path =
     (if \<not> path_exists e ezd_template then (Inr (Failure ''Template file not found''), s)
      else
        let st = \<lparr>stats_total = length data_items, stats_success = 0, stats_errors = 0,
                  start_time = time_time e (invocations s)\<rparr>
        in case open_ezd_file e s ezd_template of
          (Inl x, s1) \<Rightarrow> (Inl x, s1)
        | (Inr opened, s1) \<Rightarrow>
            if \<not> opened then (Inr (Failure ''Failed to open template file''), s1)
            else
              (case list_entities e s1 of
                 (Inl x, s2) \<Rightarrow> (Inl x, s2)
               | (Inr available_entities, s2) \<Rightarrow>
                   (case process_items e available_entities st s2 data_items of
                      (Inl x, s3) \<Rightarrow> (Inl x, s3)
                    | (Inr st', s3) \<Rightarrow>
                        (case (case output_path of
                                 None \<Rightarrow> (Inr False, s3)
                               | Some p \<Rightarrow> if p \<noteq> [] then save_ezd_file e s3 p
                                           else (Inr False, s3)) of
                           (Inl x, s4) \<Rightarrow> (Inl x, s4)
                         | (Inr saved, s4) \<Rightarrow>
                             let t_end = time_time e (invocations s4)
                             in (Inr (Statistics
                                        (stats.extend st'
                                           \<lparr>end_time = t_end,
                                              duration = t_end - start_time st'\<rparr>)),
                                 s4)))))"





section \<open>The entity-list format as the specification words it\<close>

text \<open>
  The specification of the list format: a line is an entity record iff it starts with
  \<^verbatim>\<open>[\<close> and contains a \<^verbatim>\<open>]\<close>; after the first \<^verbatim>\<open>]\<close> the remainder is split on the token
  \<^verbatim>\<open>(Type:\<close>, and the trimmed text before the split is the entity name.
\<close>

definition spec_is_entity_record :: "string \<Rightarrow> bool" where
  "spec_is_entity_record line = (prefix ''['' line \<and> CHR '']'' \<in> set line)"

definition spec_entity_name :: "string \<Rightarrow> string" where
  "spec_entity_name line =
     py_strip (hd (py_split1 ''(Type:'' (tl (dropWhile (\<lambda>c. c \<noteq> CHR '']'') line))))"

text \<open>The names of the entity records among the lines of the output, in order.\<close>

definition spec_parse_entities :: "string \<Rightarrow> string list" where
  "spec_parse_entities out =
     map spec_entity_name (filter spec_is_entity_record (py_splitlines out))"

text \<open>The same, on the lines with their surrounding whitespace removed.\<close>

definition spec_parse_entities_trimmed :: "string \<Rightarrow> string list" where
  "spec_parse_entities_trimmed out =
     map spec_entity_name (filter spec_is_entity_record (map py_strip (py_splitlines out)))"

section \<open>Concrete environments\<close>

text \<open>
  An engine that answers every command with the same output and return code 0, and one
  whose launch always raises an \<^verbatim>\<open>Exception\<close> with the given message. Every path exists
  in both.
\<close>

definition engine_replying :: "string \<Rightarrow> env" where
  "engine_replying out =
     \<lparr>path_exists = (\<lambda>p. True), bridge_exe_path = ''EZCADBridge.exe'',
      popen = (\<lambda>h c. Exited out [] 0), time_time = (\<lambda>h. 0)\<rparr>"

definition engine_raising :: "string \<Rightarrow> env" where
  "engine_raising msg =
     \<lparr>path_exists = (\<lambda>p. True), bridge_exe_path = ''EZCADBridge.exe'',
      popen = (\<lambda>h c. Raised (PyException True (Inr msg))), time_time = (\<lambda>h. 0)\<rparr>"

text \<open>
  An engine with the entities \<^verbatim>\<open>Serial\<close> and \<^verbatim>\<open>QRCode\<close> that opens
  \<^verbatim>\<open>template.ezd\<close> only, updates every entity, and marks until five commands have been
  launched; after that the launch of a mark raises an \<^verbatim>\<open>Exception\<close>.
\<close>

definition scripted_engine :: env where
  "scripted_engine =
     \<lparr>path_exists = (\<lambda>p. p = ''template.ezd''), bridge_exe_path = ''EZCADBridge.exe'',
      popen = (\<lambda>h c.
        if c = [''EZCADBridge.exe'', ''open'', ''template.ezd'']
        then Exited ''File opened successfully'' [] 0
        else if c = [''EZCADBridge.exe'', ''list'']
        then Exited (''[0] Serial (Type: Text)'' @ [CHR 0x0A] @ ''[1] QRCode (Type: Barcode)'') [] 0
        else if c = [''EZCADBridge.exe'', ''mark'']
        then (if length h < 5 then Exited ''Marking completed'' [] 0
              else Raised (PyException True (Inr ''engine lost'')))
        else if take 2 c = [''EZCADBridge.exe'', ''update'']
        then Exited ''Entity updated successfully'' [] 0
        else Exited ''Unknown command'' ''usage'' 1),
      time_time = (\<lambda>h. of_nat (length h))\<rparr>"



definition closed_session :: bridge where
  "closed_session = \<lparr>current_ezd_file = None, invocations = []\<rparr>"

definition open_session :: bridge where
  "open_session = \<lparr>current_ezd_file = Some ''old.ezd'', invocations = []\<rparr>"

definition sample_rows :: "data_item list" where
  "sample_rows =
     [Dict [(''id'', Str ''1''), (''Serial'', Str ''SN100001''), (''Extra'', Str ''ignored'')],
      NotADict,
      Dict [(''QRCode'', StrRaises (PyException True (Inr ''cannot convert'')))],
      Dict [(''QRCode'', Str ''Q-7'')]]"


section \<open>Facts about the text operations\<close>

lemma startswith_prefix: "startswith s p = prefix p s"
  by (induction s p rule: startswith.induct) auto

lemma py_in_sublist: "py_in sub s = sublist sub s"
  by (induction s) (auto simp: startswith_prefix sublist_Cons_right)

lemma py_in_char: "py_in [c] s = (c \<in> set s)"
  by (induction s) auto

lemma find_sep_char:
  "find_sep [c] s =
     (if c \<in> set s then Some (takeWhile (\<lambda>x. x \<noteq> c) s, tl (dropWhile (\<lambda>x. x \<noteq> c) s)) else None)"
  by (induction s) auto

lemma startswith_append_spaces:
  assumes "\<forall>c\<in>set tok. \<not> py_isspace c" and "\<forall>c\<in>set ws. py_isspace c"
  shows "startswith (s @ ws) tok = startswith s tok"
  using assms
proof (induction s tok rule: startswith.induct)
  case (1 s)
  then show ?case by simp
next
  case (2 p ps)
  then show ?case by (cases ws) auto
next
  case (3 c cs p ps)
  then show ?case by simp
qed

lemma startswith_length: "startswith s tok \<Longrightarrow> length tok \<le> length s"
  by (simp add: startswith_prefix prefix_length_le)

lemma find_sep_spaces_None:
  assumes "tok \<noteq> []" and "\<not> py_isspace (hd tok)" and "\<forall>c\<in>set ws. py_isspace c"
  shows "find_sep tok ws = None"
  using assms
proof (induction ws)
  case Nil
  then show ?case by simp
next
  case (Cons w ws)
  then have "\<not> startswith (w # ws) tok" by (cases tok) auto
  with Cons show ?case by simp
qed

lemma find_sep_append_spaces:
  assumes "tok \<noteq> []" and "\<forall>c\<in>set tok. \<not> py_isspace c" and "\<forall>c\<in>set ws. py_isspace c"
  shows "find_sep tok (s @ ws) = map_option (\<lambda>(a, b). (a, b @ ws)) (find_sep tok s)"
proof (induction s)
  case Nil
  from assms have "find_sep tok ws = None"
    by (intro find_sep_spaces_None) (auto simp: neq_Nil_conv)
  with assms(1) show ?case by simp
next
  case (Cons c cs)
  have sw: "startswith (c # cs @ ws) tok = startswith (c # cs) tok"
    using startswith_append_spaces [OF assms(2,3), of "c # cs"] by simp
  show ?case
  proof (cases "startswith (c # cs) tok")
    case True
    from startswith_length [OF True] assms(1)
    have "drop (length tok) (c # cs @ ws) = drop (length tok) (c # cs) @ ws"
      by (cases tok) simp_all
    with sw True show ?thesis by simp
  next
    case False
    with sw Cons show ?thesis
      by (cases "find_sep tok cs") (auto simp: option.map_comp)
  qed
qed

lemma find_sep_prepend_spaces:
  assumes "tok \<noteq> []" and "\<not> py_isspace (hd tok)" and "\<forall>c\<in>set ws. py_isspace c"
  shows "find_sep tok (ws @ s) = map_option (\<lambda>(a, b). (ws @ a, b)) (find_sep tok s)"
  using assms(3)
proof (induction ws)
  case Nil
  then show ?case by (simp add: option.map_ident case_prod_unfold)
next
  case (Cons w ws)
  then have "\<not> startswith (w # ws @ s) tok" using assms(1,2) by (cases tok) auto
  with Cons show ?case
    by (cases "find_sep tok s") auto
qed

lemma py_strip_prepend_spaces:
  "\<forall>c\<in>set ws. py_isspace c \<Longrightarrow> py_strip (ws @ x) = py_strip x"
  by (simp add: py_strip_def dropWhile_append2)

lemma py_strip_append_spaces:
  assumes "\<forall>c\<in>set ws. py_isspace c"
  shows "py_strip (x @ ws) = py_strip x"
proof (cases "\<forall>c\<in>set x. py_isspace c")
  case True
  with assms have a: "dropWhile py_isspace (x @ ws) = []" and b: "dropWhile py_isspace x = []"
    by auto
  show ?thesis unfolding py_strip_def by (simp only: a b)
next
  case False
  then obtain c where "c \<in> set x" "\<not> py_isspace c" by blast
  then have a: "dropWhile py_isspace (x @ ws) = dropWhile py_isspace x @ ws"
    by (rule dropWhile_append1)
  from assms have "dropWhile py_isspace (rev ws @ y) = dropWhile py_isspace y" for y
    by (intro dropWhile_append2) simp
  then show ?thesis by (simp add: py_strip_def a)
qed

lemma py_strip_decompose:
  "\<exists>ws1 ws2. (\<forall>c\<in>set ws1. py_isspace c) \<and> (\<forall>c\<in>set ws2. py_isspace c) \<and> r = ws1 @ py_strip r @ ws2"
proof -
  let ?l = "dropWhile py_isspace r"
  have "?l = rev (takeWhile py_isspace (rev ?l) @ dropWhile py_isspace (rev ?l))"
    by (simp only: takeWhile_dropWhile_id rev_rev_ident)
  then have l: "?l = py_strip r @ rev (takeWhile py_isspace (rev ?l))"
    by (simp only: rev_append py_strip_def)
  have r: "r = takeWhile py_isspace r @ ?l" by simp
  have a: "\<forall>c\<in>set (takeWhile py_isspace r). py_isspace c"
    by (auto dest: set_takeWhileD)
  have b: "\<forall>c\<in>set (rev (takeWhile py_isspace (rev ?l))). py_isspace c"
    by (auto dest: set_takeWhileD)
  from a b l r show ?thesis by metis
qed

lemma before_token_strip:
  assumes "tok \<noteq> []" and "\<forall>c\<in>set tok. \<not> py_isspace c"
  shows "py_strip (hd (py_split1 tok (py_strip r))) = py_strip (hd (py_split1 tok r))"
proof -
  obtain ws1 ws2 where ws: "\<forall>c\<in>set ws1. py_isspace c" "\<forall>c\<in>set ws2. py_isspace c"
    and r: "r = ws1 @ py_strip r @ ws2"
    using py_strip_decompose by blast
  let ?core = "py_strip r"
  have hd: "\<not> py_isspace (hd tok)" using assms by (cases tok) auto
  have f: "find_sep tok (ws1 @ ?core @ ws2) =
           map_option (\<lambda>(a, b). (ws1 @ a, b)) (map_option (\<lambda>(a, b). (a, b @ ws2)) (find_sep tok ?core))"
    by (simp add: find_sep_prepend_spaces [OF assms(1) hd ws(1)]
                  find_sep_append_spaces [OF assms(1,2) ws(2)])
  have core: "py_strip (ws1 @ ?core @ ws2) = py_strip ?core"
    using py_strip_prepend_spaces [OF ws(1)] py_strip_append_spaces [OF ws(2)] by simp
  have "py_strip (hd (py_split1 tok ?core)) = py_strip (hd (py_split1 tok (ws1 @ ?core @ ws2)))"
  proof (cases "find_sep tok ?core")
    case None
    with f core show ?thesis by (simp add: py_split1_def)
  next
    case (Some ab)
    with f show ?thesis
      by (cases ab) (simp add: py_split1_def py_strip_prepend_spaces [OF ws(1)])
  qed
  with r show ?thesis by simp
qed

lemma token_no_space: "\<forall>c\<in>set ''(Type:''. \<not> py_isspace c"
  by code_simp

lemma entity_line_spec:
  "entity_line entities line =
     entities @ (if spec_is_entity_record (py_strip line) then [spec_entity_name (py_strip line)] else [])"
proof -
  have "py_strip (hd (py_split1 ''(Type:'' (py_strip r))) = py_strip (hd (py_split1 ''(Type:'' r))" for r
    by (rule before_token_strip [OF _ token_no_space]) simp
  then show ?thesis
    by (simp add: entity_line_def spec_is_entity_record_def spec_entity_name_def Let_def
        startswith_prefix py_in_char py_split1_def find_sep_char hd_conv_nth
        split: option.splits)
qed

lemma foldl_entity_line:
  "foldl entity_line acc ls = acc @ map spec_entity_name (filter spec_is_entity_record (map py_strip ls))"
  by (induction ls arbitrary: acc) (simp_all add: entity_line_spec)


section \<open>Facts about the invoker and the batch loop\<close>

lemma run_bridge_command_state:
  "snd (run_bridge_command e s args) =
     s\<lparr>invocations := invocations s @ [bridge_exe_path e # args]\<rparr>"
  by (simp add: run_bridge_command_def Let_def split: proc_outcome.splits sum.splits)

lemma run_bridge_command_exited:
  "popen e (invocations s) (bridge_exe_path e # args) = Exited out err rc \<Longrightarrow>
   fst (run_bridge_command e s args) =
     Inr \<lparr>output_text = out, error = err, return_code = rc, success = (rc = 0)\<rparr>"
  by (simp add: run_bridge_command_def Let_def)














section \<open>The claims\<close>




text \<open>
  C2. When the template path does not exist, \<^verbatim>\<open>process_data\<close> returns the error
  dictionary with the non-empty text \<^verbatim>\<open>Template file not found\<close>, which carries no
  row counts, and leaves the bridge as it was: no process is launched.
\<close>

theorem process_data_template_missing:
  assumes "\<not> path_exists e ezd_template"
  shows "\<exists>msg. process_data e s ezd_template data_items output_path = (Inr (Failure msg), s) \<and>
           msg = ''Template file not found'' \<and> msg \<noteq> [] \<and>
           invocations (snd (process_data e s ezd_template data_items output_path))
             = invocations s"
  using assms by (simp add: process_data_def)

theorem process_data_template_missing_witness:
  "\<not> path_exists scripted_engine ''missing.ezd'' \<and>
   (\<exists>msg. process_data scripted_engine closed_session ''missing.ezd'' sample_rows None
             = (Inr (Failure msg), closed_session) \<and>
          msg = ''Template file not found'' \<and> msg \<noteq> [] \<and>
          invocations (snd (process_data scripted_engine closed_session ''missing.ezd''
                              sample_rows None))
            = invocations closed_session)"
proof -
  have h: "\<not> path_exists scripted_engine ''missing.ezd''"
    by code_simp
  from process_data_template_missing [OF h, of closed_session sample_rows None] h
  show ?thesis by blast
qed

text \<open>
  C3. When the template exists and opening it fails, \<^verbatim>\<open>process_data\<close> returns the error
  dictionary with the text \<^verbatim>\<open>Failed to open template file\<close> and no row counts; the only
  process launched is the \<^verbatim>\<open>open\<close> command, so no row is processed and no update or
  mark is issued, and the session is the one from before the call.
\<close>

theorem process_data_open_fails:
  assumes "path_exists e ezd_template"
    and "fst (open_ezd_file e s ezd_template) = Inr False"
  shows "fst (process_data e s ezd_template data_items output_path)
           = Inr (Failure ''Failed to open template file'') \<and>
         invocations (snd (process_data e s ezd_template data_items output_path))
           = invocations s @ [[bridge_exe_path e, ''open'', ezd_template]] \<and>
         current_ezd_file (snd (process_data e s ezd_template data_items output_path))
           = current_ezd_file s"
proof -
  obtain r s1 where rb: "run_bridge_command e s [''open'', ezd_template] = (r, s1)"
    by (cases "run_bridge_command e s [''open'', ezd_template]")
  with run_bridge_command_state [of e s "[''open'', ezd_template]"]
  have s1: "s1 = s\<lparr>invocations := invocations s @ [[bridge_exe_path e, ''open'', ezd_template]]\<rparr>"
    by simp
  from assms rb have op: "open_ezd_file e s ezd_template = (Inr False, s1)"
    by (cases r) (simp_all add: open_ezd_file_def split: if_splits)
  show ?thesis
    using assms(1) op s1 by (simp add: process_data_def Let_def)
qed

theorem process_data_open_fails_witness:
  "path_exists (engine_replying ''Error: cannot open file'') ''template.ezd'' \<and>
   fst (open_ezd_file (engine_replying ''Error: cannot open file'') closed_session ''template.ezd'')
     = Inr False \<and>
   fst (process_data (engine_replying ''Error: cannot open file'') closed_session ''template.ezd''
          sample_rows None)
     = Inr (Failure ''Failed to open template file'') \<and>
   invocations (snd (process_data (engine_replying ''Error: cannot open file'') closed_session
                       ''template.ezd'' sample_rows None))
     = [[''EZCADBridge.exe'', ''open'', ''template.ezd'']]"
proof -
  let ?e = "engine_replying ''Error: cannot open file''"
  have h1: "path_exists ?e ''template.ezd''"
    by code_simp
  have h2: "fst (open_ezd_file ?e closed_session ''template.ezd'') = Inr False"
    by code_simp
  have i: "invocations closed_session = []" "bridge_exe_path ?e = ''EZCADBridge.exe''"
    by (simp_all add: closed_session_def engine_replying_def)
  from process_data_open_fails [OF h1 h2, of sample_rows None] h1 h2
  show ?thesis by (simp only: i append_Nil simp_thms)
qed

text \<open>
  C4, as the claim words it: the parser returns the names of the lines that start with
  \<^verbatim>\<open>[\<close> and contain \<^verbatim>\<open>]\<close>. The source trims every line before it tests its shape, so an
  indented record line, which does not start with \<^verbatim>\<open>[\<close>, still contributes its name.
\<close>

theorem parse_entities_untrimmed_counterexample:
  "\<not> spec_is_entity_record ''  [0] Serial (Type: Text)'' \<and>
   spec_parse_entities ''  [0] Serial (Type: Text)'' = [] \<and>
   parse_entities ''  [0] Serial (Type: Text)'' = [''Serial''] \<and>
   parse_entities ''  [0] Serial (Type: Text)'' \<noteq> spec_parse_entities ''  [0] Serial (Type: Text)''"
  by code_simp

text \<open>
  C4, amended: for every output text the parser returns exactly the names extracted from
  the lines that, once their surrounding whitespace is trimmed, start with \<^verbatim>\<open>[\<close> and
  contain \<^verbatim>\<open>]\<close>: the text after the first \<^verbatim>\<open>]\<close> is split on \<^verbatim>\<open>(Type:\<close> and the part
  before it is trimmed; names come in the order of the lines, duplicates kept. Other lines
  contribute nothing; the empty output and an output without such a line give the empty
  list; the two lines of the example give \<^verbatim>\<open>Serial\<close> and \<^verbatim>\<open>QRCode\<close>.
\<close>

theorem parse_entities_trimmed_lines:
  "parse_entities out = spec_parse_entities_trimmed out \<and>
   parse_entities [] = [] \<and>
   ((\<forall>line \<in> set (py_splitlines out). \<not> spec_is_entity_record (py_strip line))
      \<longrightarrow> parse_entities out = []) \<and>
   parse_entities (''[0] Serial (Type: Text)'' @ [CHR 0x0A] @ ''[1] QRCode (Type: Barcode)'')
     = [''Serial'', ''QRCode'']"
proof -
  have eq: "parse_entities t = spec_parse_entities_trimmed t" for t
    by (simp add: parse_entities_def spec_parse_entities_trimmed_def foldl_entity_line)
  have empty: "parse_entities [] = []"
    by (simp add: parse_entities_def py_splitlines_def)
  have none: "(\<forall>line \<in> set (py_splitlines out). \<not> spec_is_entity_record (py_strip line))
      \<longrightarrow> parse_entities out = []"
    by (simp add: eq spec_parse_entities_trimmed_def filter_empty_conv)
  have ex: "parse_entities (''[0] Serial (Type: Text)'' @ [CHR 0x0A] @ ''[1] QRCode (Type: Barcode)'')
     = [''Serial'', ''QRCode'']"
    by code_simp
  from eq empty none ex show ?thesis by blast
qed

theorem parse_entities_trimmed_lines_witness:
  "list_all (\<lambda>line. \<not> spec_is_entity_record (py_strip line))
      (py_splitlines (''EZCAD bridge'' @ [CHR 0x0A] @ ''[7 unclosed'')) \<and>
   parse_entities (''EZCAD bridge'' @ [CHR 0x0A] @ ''[7 unclosed'') = [] \<and>
   parse_entities (''Entities:'' @ [CHR 0x0A] @ ''  [0] Serial (Type: Text)'' @ [CHR 0x0D, CHR 0x0A]
                   @ ''[1] Serial'' @ [CHR 0x0A] @ ''[2 QRCode'')
     = spec_parse_entities_trimmed
         (''Entities:'' @ [CHR 0x0A] @ ''  [0] Serial (Type: Text)'' @ [CHR 0x0D, CHR 0x0A]
          @ ''[1] Serial'' @ [CHR 0x0A] @ ''[2 QRCode'') \<and>
   spec_parse_entities_trimmed
         (''Entities:'' @ [CHR 0x0A] @ ''  [0] Serial (Type: Text)'' @ [CHR 0x0D, CHR 0x0A]
          @ ''[1] Serial'' @ [CHR 0x0A] @ ''[2 QRCode'')
     = [''Serial'', ''Serial'']"
proof -
  let ?a = "''EZCAD bridge'' @ [CHR 0x0A] @ ''[7 unclosed''"
  let ?b = "''Entities:'' @ [CHR 0x0A] @ ''  [0] Serial (Type: Text)'' @ [CHR 0x0D, CHR 0x0A]
            @ ''[1] Serial'' @ [CHR 0x0A] @ ''[2 QRCode''"
  have h: "\<forall>line \<in> set (py_splitlines ?a). \<not> spec_is_entity_record (py_strip line)"
    by code_simp
  have v: "spec_parse_entities_trimmed ?b = [''Serial'', ''Serial'']"
    by code_simp
  from parse_entities_trimmed_lines [of ?a] h have a: "parse_entities ?a = []"
    by blast
  from parse_entities_trimmed_lines [of ?b]
  have b: "parse_entities ?b = spec_parse_entities_trimmed ?b"
    by blast
  from h have "list_all (\<lambda>line. \<not> spec_is_entity_record (py_strip line)) (py_splitlines ?a)"
    by (simp only: list_all_iff)
  with a b v show ?thesis by blast
qed

text \<open>
  C5. With no template open, update text, mark, save, list entities and position pointer
  return their failure value (\<^verbatim>\<open>False\<close>, or the empty list) and leave the bridge as it
  was: no process is launched.
\<close>

theorem no_session_no_invocation:
  assumes "current_ezd_file s = None"
  shows "update_text e s entity_name new_text = (Inr False, s) \<and>
         mark e s entity = (Inr False, s) \<and>
         save_ezd_file e s output_path = (Inr False, s) \<and>
         list_entities e s = (Inr [], s) \<and>
         red_light e s x y = (Inr False, s)"
  using assms
  by (simp add: update_text_def mark_def save_ezd_file_def list_entities_def red_light_def)

theorem no_session_no_invocation_witness:
  "current_ezd_file closed_session = None \<and>
   update_text (engine_replying ''Entity updated successfully'') closed_session ''Serial'' ''SN1''
     = (Inr False, closed_session) \<and>
   mark (engine_replying ''Entity updated successfully'') closed_session None
     = (Inr False, closed_session) \<and>
   save_ezd_file (engine_replying ''Entity updated successfully'') closed_session ''out.ezd''
     = (Inr False, closed_session) \<and>
   list_entities (engine_replying ''Entity updated successfully'') closed_session
     = (Inr [], closed_session) \<and>
   red_light (engine_replying ''Entity updated successfully'') closed_session ''1.0'' ''2.5''
     = (Inr False, closed_session)"
proof -
  have h: "current_ezd_file closed_session = None"
    by (simp add: closed_session_def)
  from no_session_no_invocation [OF h, of "engine_replying ''Entity updated successfully''"
      "''Serial''" "''SN1''" None "''out.ezd''" "''1.0''" "''2.5''"] h
  show ?thesis by blast
qed

text \<open>
  C6. With a template open, when the engine exits with the output \<open>out\<close>, update text
  succeeds iff the lower-cased \<open>out\<close> contains \<^verbatim>\<open>updated successfully\<close>, and mark (of all
  entities or of one) succeeds iff it contains \<^verbatim>\<open>completed\<close>. The output
  \<^verbatim>\<open>Entity updated successfully for field X\<close> is an update success and
  \<^verbatim>\<open>Update failed: entity not found\<close> an update failure.
\<close>

theorem update_mark_classification:
  assumes "current_ezd_file s \<noteq> None"
  shows "(popen e (invocations s) [bridge_exe_path e, ''update'', entity_name, new_text]
            = Exited out err rc
          \<longrightarrow> fst (update_text e s entity_name new_text)
              = Inr (sublist ''updated successfully'' (py_lower out))) \<and>
         (popen e (invocations s) [bridge_exe_path e, ''mark''] = Exited out err rc
          \<longrightarrow> fst (mark e s None) = Inr (sublist ''completed'' (py_lower out))) \<and>
         (entity \<noteq> [] \<and> popen e (invocations s) [bridge_exe_path e, ''mark'', entity]
            = Exited out err rc
          \<longrightarrow> fst (mark e s (Some entity)) = Inr (sublist ''completed'' (py_lower out))) \<and>
         (popen e (invocations s) [bridge_exe_path e, ''update'', entity_name, new_text]
            = Exited ''Entity updated successfully for field X'' err rc
          \<longrightarrow> fst (update_text e s entity_name new_text) = Inr True) \<and>
         (popen e (invocations s) [bridge_exe_path e, ''update'', entity_name, new_text]
            = Exited ''Update failed: entity not found'' err rc
          \<longrightarrow> fst (update_text e s entity_name new_text) = Inr False)"
proof -
  have upd: "fst (update_text e s entity_name new_text)
               = Inr (sublist ''updated successfully'' (py_lower t))"
    if "popen e (invocations s) [bridge_exe_path e, ''update'', entity_name, new_text] = Exited t err rc"
    for t
    using assms run_bridge_command_exited [of e s "[''update'', entity_name, new_text]" t err rc] that
    by (cases "run_bridge_command e s [''update'', entity_name, new_text]")
       (simp add: update_text_def py_in_sublist)
  have mk: "fst (mark e s en) = Inr (sublist ''completed'' (py_lower out))"
    if "popen e (invocations s) (bridge_exe_path e # cmd) = Exited out err rc"
      and "cmd = (case en of None \<Rightarrow> [''mark''] | Some n \<Rightarrow> if n \<noteq> [] then [''mark'', n] else [''mark''])"
    for en cmd
    using assms run_bridge_command_exited [of e s cmd out err rc] that
    by (cases "run_bridge_command e s cmd") (simp add: mark_def py_in_sublist Let_def)
  have yes: "sublist ''updated successfully'' (py_lower ''Entity updated successfully for field X'')"
    by code_simp
  have no: "\<not> sublist ''updated successfully'' (py_lower ''Update failed: entity not found'')"
    by code_simp
  show ?thesis
    using upd [of out] upd [of "''Entity updated successfully for field X''"]
      upd [of "''Update failed: entity not found''"] mk [of "[''mark'']" None]
      mk [of "[''mark'', entity]" "Some entity"] yes no
    by simp
qed

theorem update_mark_classification_witness:
  "current_ezd_file open_session \<noteq> None \<and>
   fst (update_text (engine_replying ''Entity updated successfully for field X'') open_session
          ''Serial'' ''SN100001'') = Inr True \<and>
   fst (update_text (engine_replying ''Update failed: entity not found'') open_session
          ''Serial'' ''SN100001'') = Inr False \<and>
   fst (mark (engine_replying ''Marking COMPLETED'') open_session None)
     = Inr (sublist ''completed'' (py_lower ''Marking COMPLETED'')) \<and>
   sublist ''completed'' (py_lower ''Marking COMPLETED'')"
proof -
  have h: "current_ezd_file open_session \<noteq> None"
    by (simp add: open_session_def)
  have p: "popen (engine_replying t) (invocations open_session) c = Exited t [] 0" for t c
    by (simp add: engine_replying_def)
  have v: "sublist ''completed'' (py_lower ''Marking COMPLETED'')"
    by code_simp
  from update_mark_classification [OF h,
      of "engine_replying ''Entity updated successfully for field X''" "''Serial''" "''SN100001''"
         "''Entity updated successfully for field X''" "[]" 0] p
  have a: "fst (update_text (engine_replying ''Entity updated successfully for field X'')
                  open_session ''Serial'' ''SN100001'') = Inr True"
    by blast
  from update_mark_classification [OF h,
      of "engine_replying ''Update failed: entity not found''" "''Serial''" "''SN100001''"
         "''Update failed: entity not found''" "[]" 0] p
  have b: "fst (update_text (engine_replying ''Update failed: entity not found'')
                  open_session ''Serial'' ''SN100001'') = Inr False"
    by blast
  from update_mark_classification [OF h,
      of "engine_replying ''Marking COMPLETED''" "''Serial''" "''SN100001''"
         "''Marking COMPLETED''" "[]" 0] p
  have c: "fst (mark (engine_replying ''Marking COMPLETED'') open_session None)
             = Inr (sublist ''completed'' (py_lower ''Marking COMPLETED''))"
    by blast
  from h a b c v show ?thesis by blast
qed

text \<open>
  C7, as the claim words it: save and position succeed iff the lower-cased output contains
  \<^verbatim>\<open>successfully\<close>. On the output \<^verbatim>\<open>Operation finished successfully\<close>, which contains
  it, both fail, while open succeeds.
\<close>

theorem save_position_phrase_counterexample:
  "sublist ''successfully'' (py_lower ''Operation finished successfully'') \<and>
   fst (save_ezd_file (engine_replying ''Operation finished successfully'') open_session ''out.ezd'')
     = Inr False \<and>
   fst (red_light (engine_replying ''Operation finished successfully'') open_session ''1.0'' ''2.5'')
     = Inr False \<and>
   fst (open_ezd_file (engine_replying ''Operation finished successfully'') open_session ''new.ezd'')
     = Inr True"
  by code_simp

text \<open>
  C7, amended: when the engine exits with the output \<open>out\<close>, open (of an existing path)
  succeeds iff the lower-cased \<open>out\<close> contains \<^verbatim>\<open>successfully\<close>, save (with a template
  open) iff it contains \<^verbatim>\<open>saved successfully\<close>, and position (with a template open) iff
  it contains \<^verbatim>\<open>positioned successfully\<close>.
\<close>

theorem open_save_position_classification:
  "(path_exists e path \<and>
    popen e (invocations s) [bridge_exe_path e, ''open'', path] = Exited out err rc
    \<longrightarrow> fst (open_ezd_file e s path) = Inr (sublist ''successfully'' (py_lower out))) \<and>
   (current_ezd_file s \<noteq> None \<and>
    popen e (invocations s) [bridge_exe_path e, ''save'', path] = Exited out err rc
    \<longrightarrow> fst (save_ezd_file e s path) = Inr (sublist ''saved successfully'' (py_lower out))) \<and>
   (current_ezd_file s \<noteq> None \<and>
    popen e (invocations s) [bridge_exe_path e, ''red'', x, y] = Exited out err rc
    \<longrightarrow> fst (red_light e s x y) = Inr (sublist ''positioned successfully'' (py_lower out)))"
proof -
  have a: "fst (open_ezd_file e s path) = Inr (sublist ''successfully'' (py_lower out))"
    if "path_exists e path"
      and "popen e (invocations s) [bridge_exe_path e, ''open'', path] = Exited out err rc"
    using that run_bridge_command_exited [of e s "[''open'', path]" out err rc]
    by (cases "run_bridge_command e s [''open'', path]")
       (simp add: open_ezd_file_def py_in_sublist)
  have b: "fst (save_ezd_file e s path) = Inr (sublist ''saved successfully'' (py_lower out))"
    if "current_ezd_file s \<noteq> None"
      and "popen e (invocations s) [bridge_exe_path e, ''save'', path] = Exited out err rc"
    using that run_bridge_command_exited [of e s "[''save'', path]" out err rc]
    by (cases "run_bridge_command e s [''save'', path]")
       (simp add: save_ezd_file_def py_in_sublist)
  have c: "fst (red_light e s x y) = Inr (sublist ''positioned successfully'' (py_lower out))"
    if "current_ezd_file s \<noteq> None"
      and "popen e (invocations s) [bridge_exe_path e, ''red'', x, y] = Exited out err rc"
    using that run_bridge_command_exited [of e s "[''red'', x, y]" out err rc]
    by (cases "run_bridge_command e s [''red'', x, y]")
       (simp add: red_light_def py_in_sublist)
  from a b c show ?thesis by blast
qed

theorem open_save_position_classification_witness:
  "path_exists (engine_replying ''File Saved Successfully'') ''out.ezd'' \<and>
   current_ezd_file open_session \<noteq> None \<and>
   fst (open_ezd_file (engine_replying ''File Saved Successfully'') open_session ''out.ezd'')
     = Inr (sublist ''successfully'' (py_lower ''File Saved Successfully'')) \<and>
   fst (save_ezd_file (engine_replying ''File Saved Successfully'') open_session ''out.ezd'')
     = Inr (sublist ''saved successfully'' (py_lower ''File Saved Successfully'')) \<and>
   fst (red_light (engine_replying ''File Saved Successfully'') open_session ''1.0'' ''2.5'')
     = Inr (sublist ''positioned successfully'' (py_lower ''File Saved Successfully'')) \<and>
   sublist ''saved successfully'' (py_lower ''File Saved Successfully'') \<and>
   \<not> sublist ''positioned successfully'' (py_lower ''File Saved Successfully'')"
proof -
  let ?e = "engine_replying ''File Saved Successfully''"
  have h1: "path_exists ?e ''out.ezd''"
    by (simp add: engine_replying_def)
  have h2: "current_ezd_file open_session \<noteq> None"
    by (simp add: open_session_def)
  have p: "popen ?e (invocations open_session) c = Exited ''File Saved Successfully'' [] 0" for c
    by (simp add: engine_replying_def)
  have v: "sublist ''saved successfully'' (py_lower ''File Saved Successfully'')"
          "\<not> sublist ''positioned successfully'' (py_lower ''File Saved Successfully'')"
    by code_simp+
  from open_save_position_classification [of ?e "''out.ezd''" open_session
      "''File Saved Successfully''" "[]" 0 "''1.0''" "''2.5''"] h1 h2 p
  have "fst (open_ezd_file ?e open_session ''out.ezd'')
          = Inr (sublist ''successfully'' (py_lower ''File Saved Successfully''))"
       "fst (save_ezd_file ?e open_session ''out.ezd'')
          = Inr (sublist ''saved successfully'' (py_lower ''File Saved Successfully''))"
       "fst (red_light ?e open_session ''1.0'' ''2.5'')
          = Inr (sublist ''positioned successfully'' (py_lower ''File Saved Successfully''))"
    by blast+
  with h1 h2 v show ?thesis by blast
qed

text \<open>
  C8. When open succeeds, the given path is the current session path afterwards; when it
  does not, the session path is the one from before the call, so a template that was open
  stays open; and when the path does not exist, open fails and launches no process.
\<close>

theorem open_ezd_file_session:
  "(fst (open_ezd_file e s path) = Inr True
      \<longrightarrow> current_ezd_file (snd (open_ezd_file e s path)) = Some path) \<and>
   (fst (open_ezd_file e s path) \<noteq> Inr True
      \<longrightarrow> current_ezd_file (snd (open_ezd_file e s path)) = current_ezd_file s) \<and>
   (\<not> path_exists e path \<longrightarrow> open_ezd_file e s path = (Inr False, s))"
proof -
  obtain r s1 where rb: "run_bridge_command e s [''open'', path] = (r, s1)"
    by (cases "run_bridge_command e s [''open'', path]")
  with run_bridge_command_state [of e s "[''open'', path]"]
  have "current_ezd_file s1 = current_ezd_file s"
    by simp
  with rb show ?thesis
    by (cases r) (simp_all add: open_ezd_file_def)
qed

theorem open_ezd_file_session_witness:
  "fst (open_ezd_file (engine_replying ''File opened successfully'') open_session ''new.ezd'')
     = Inr True \<and>
   current_ezd_file (snd (open_ezd_file (engine_replying ''File opened successfully'')
                            open_session ''new.ezd'')) = Some ''new.ezd'' \<and>
   fst (open_ezd_file (engine_replying ''Error: cannot open file'') open_session ''new.ezd'')
     = Inr False \<and>
   current_ezd_file (snd (open_ezd_file (engine_replying ''Error: cannot open file'')
                            open_session ''new.ezd'')) = Some ''old.ezd'' \<and>
   \<not> path_exists scripted_engine ''new.ezd'' \<and>
   open_ezd_file scripted_engine open_session ''new.ezd'' = (Inr False, open_session)"
proof -
  have h1: "fst (open_ezd_file (engine_replying ''File opened successfully'') open_session ''new.ezd'')
              = Inr True"
    by code_simp
  have h2: "fst (open_ezd_file (engine_replying ''Error: cannot open file'') open_session ''new.ezd'')
              = Inr False"
    by code_simp
  have h3: "\<not> path_exists scripted_engine ''new.ezd''"
    by code_simp
  have o: "current_ezd_file open_session = Some ''old.ezd''"
    by (simp add: open_session_def)
  from open_ezd_file_session [of "engine_replying ''File opened successfully''" open_session "''new.ezd''"] h1
  have a: "current_ezd_file (snd (open_ezd_file (engine_replying ''File opened successfully'')
                                    open_session ''new.ezd'')) = Some ''new.ezd''"
    by blast
  from open_ezd_file_session [of "engine_replying ''Error: cannot open file''" open_session "''new.ezd''"] h2 o
  have b: "current_ezd_file (snd (open_ezd_file (engine_replying ''Error: cannot open file'')
                                    open_session ''new.ezd'')) = Some ''old.ezd''"
    by simp
  from open_ezd_file_session [of scripted_engine open_session "''new.ezd''"] h3
  have c: "open_ezd_file scripted_engine open_session ''new.ezd'' = (Inr False, open_session)"
    by blast
  from h1 h2 h3 a b c show ?thesis by blast
qed

text \<open>
  C9. When the launch of the process raises an \<^verbatim>\<open>Exception\<close> with the message \<open>msg\<close>,
  as a missing executable or a denied permission does, \<^verbatim>\<open>_run_bridge_command\<close> does not
  raise: it returns the result with return code \<open>-1\<close>, \<^verbatim>\<open>success\<close> false, the empty
  output and \<open>msg\<close> as error text.
\<close>

theorem run_bridge_command_launch_raises:
  assumes "popen e (invocations s) (bridge_exe_path e # args) = Raised (PyException True (Inr msg))"
  shows "fst (run_bridge_command e s args)
           = Inr \<lparr>output_text = [], error = msg, return_code = - 1, success = False\<rparr>"
  using assms by (simp add: run_bridge_command_def except_Exception_def Let_def)

theorem run_bridge_command_launch_raises_witness:
  "popen (engine_raising ''[WinError 2] file not found'') (invocations closed_session)
     (bridge_exe_path (engine_raising ''[WinError 2] file not found'') # [''info''])
     = Raised (PyException True (Inr ''[WinError 2] file not found'')) \<and>
   fst (run_bridge_command (engine_raising ''[WinError 2] file not found'') closed_session [''info''])
     = Inr \<lparr>output_text = [], error = ''[WinError 2] file not found'', return_code = - 1,
            success = False\<rparr>"
proof -
  have h: "popen (engine_raising ''[WinError 2] file not found'') (invocations closed_session)
             (bridge_exe_path (engine_raising ''[WinError 2] file not found'') # [''info''])
             = Raised (PyException True (Inr ''[WinError 2] file not found''))"
    by (simp add: engine_raising_def)
  from run_bridge_command_launch_raises [OF h] h show ?thesis by blast
qed

text \<open>
  C10. Mark with the empty text as entity name is mark without an entity name; with a
  template open, the command launched is \<^verbatim>\<open>mark\<close> without argument.
\<close>

theorem mark_empty_entity_name:
  "mark e s (Some []) = mark e s None \<and>
   (current_ezd_file s \<noteq> None
      \<longrightarrow> invocations (snd (mark e s (Some [])))
          = invocations s @ [[bridge_exe_path e, ''mark'']])"
proof -
  have eq: "mark e s (Some []) = mark e s None"
    by (simp add: mark_def)
  obtain r s1 where rb: "run_bridge_command e s [''mark''] = (r, s1)"
    by (cases "run_bridge_command e s [''mark'']")
  with run_bridge_command_state [of e s "[''mark'']"]
  have "invocations s1 = invocations s @ [[bridge_exe_path e, ''mark'']]"
    by simp
  with rb have "current_ezd_file s \<noteq> None
      \<longrightarrow> invocations (snd (mark e s (Some []))) = invocations s @ [[bridge_exe_path e, ''mark'']]"
    by (cases r) (simp_all add: mark_def)
  with eq show ?thesis by blast
qed

theorem mark_empty_entity_name_witness:
  "current_ezd_file open_session \<noteq> None \<and>
   mark (engine_replying ''Marking completed'') open_session (Some [])
     = mark (engine_replying ''Marking completed'') open_session None \<and>
   invocations (snd (mark (engine_replying ''Marking completed'') open_session (Some [])))
     = [[''EZCADBridge.exe'', ''mark'']]"
proof -
  have h: "current_ezd_file open_session \<noteq> None"
    by (simp add: open_session_def)
  have i: "invocations open_session = []"
          "bridge_exe_path (engine_replying ''Marking completed'') = ''EZCADBridge.exe''"
    by (simp_all add: open_session_def engine_replying_def)
  from mark_empty_entity_name [of "engine_replying ''Marking completed''" open_session] h
  have "mark (engine_replying ''Marking completed'') open_session (Some [])
          = mark (engine_replying ''Marking completed'') open_session None"
       "invocations (snd (mark (engine_replying ''Marking completed'') open_session (Some [])))
          = invocations open_session @ [[bridge_exe_path (engine_replying ''Marking completed''), ''mark'']]"
    by blast+
  with h show ?thesis by (simp only: i append_Nil simp_thms)
qed

end
